theory Spec2Isabelle
  imports Complex_Main
begin

section \<open>Composite material properties: the data model\<close>

text \<open>
  The program is a Streamlit script: every user action reruns it against the session
  state. The model follows \<open>material_properties_module\<close> of \<open>streamlit_app.py\<close>.
  Session state is passed explicitly and returned updated; widget values are inputs;
  an uncaught Python exception is a value of \<open>py_error\<close>.

  Numbers are Python floats in the source. They are modelled as reals, so every
  arithmetic fact below is a fact of exact arithmetic: rounding of binary64 values,
  overflow to infinity and NaN are outside the model. A statement below is made of the
  code only where the two agree up to that rounding; where binary64 decides (a total on
  the boundary of the tolerance, a modulus near the largest float) it is left open.
\<close>

datatype py_error = KeyError | ZeroDivisionError | DuplicateWidgetID

text \<open>The calls \<open>st.success\<close>, \<open>st.error\<close> and \<open>st.warning\<close>, with their text.\<close>

datatype message = Success string | Error string | Warning string

text \<open>
  A constituent is the dict with the keys \<open>'E'\<close>, \<open>'nu'\<close>, \<open>'G'\<close> and \<open>'density'\<close>
  stored under a fiber or matrix name.
\<close>

record constituent =
  E :: real
  nu :: real
  G :: real
  density :: real

text \<open>The dict stored in \<open>composite_definitions\<close> under a composite name.\<close>

record composite =
  E1 :: real
  E2 :: real
  G12 :: real
  nu12 :: real
  nu21 :: real
  density :: real
  fiber_constituents :: "(string \<times> real) list"
  matrix_constituents :: "(string \<times> real) list"

record materials_db =
  fibers :: "(string \<times> constituent) list"
  matrices :: "(string \<times> constituent) list"

record session_state =
  materials_db :: materials_db
  composite_definitions :: "(string \<times> composite) list"

text \<open>
  What one run of a handler leaves behind: the session state, the messages it showed,
  and the exception that ended it, if one did.
\<close>

record run_result =
  state :: session_state
  shown :: "message list"
  exception :: "py_error option"

subsection \<open>Python dictionaries\<close>

text \<open>
  A Python dict keeps insertion order and has one entry per key: it is an association
  list with distinct keys. \<open>d[k] = v\<close> replaces the value in place when \<open>k\<close> is
  present and appends the entry otherwise; \<open>d[k]\<close> raises \<open>KeyError\<close> when \<open>k\<close>
  is absent.
\<close>

fun dict_set :: "('k \<times> 'v) list \<Rightarrow> 'k \<Rightarrow> 'v \<Rightarrow> ('k \<times> 'v) list" where
  "dict_set [] k v = [(k, v)]"
| "dict_set ((k', v') # d) k v =
     (if k' = k then (k, v) # d else (k', v') # dict_set d k v)"

definition dict_get :: "('k \<times> 'v) list \<Rightarrow> 'k \<Rightarrow> py_error + 'v" where
  "dict_get d k = (case map_of d k of None \<Rightarrow> Inl KeyError | Some v \<Rightarrow> Inr v)"

definition keys :: "('k \<times> 'v) list \<Rightarrow> 'k list" where
  "keys d = map fst d"

subsection \<open>Float division and formatting\<close>

text \<open>Python's \<open>a / b\<close> on floats raises \<open>ZeroDivisionError\<close> when \<open>b\<close> is zero.\<close>

definition py_div :: "real \<Rightarrow> real \<Rightarrow> py_error + real" where
  "py_div a b = (if b = 0 then Inl ZeroDivisionError else Inr (a / b))"

text \<open>
  The format specification \<open>:.2f\<close>: the decimal with two fractional digits nearest to
  the value, a tie going to the even neighbour, which is what Python prints for a float
  that lies exactly halfway. A decimal such as 0.005 is not a float: the float nearest
  to it lies above the tie and Python prints 0.01, where the exact real gives 0.00. The
  function is used below at values away from a tie only.
\<close>

definition round_half_even :: "real \<Rightarrow> int" where
  "round_half_even x =
     (let f = \<lfloor>x\<rfloor>; d = x - of_int f
      in if d < 1 / 2 then f else if 1 / 2 < d then f + 1 else if even f then f else f + 1)"

fun show_nat :: "nat \<Rightarrow> string" where
  "show_nat n =
     (if n < 10 then [''0123456789'' ! n]
      else show_nat (n div 10) @ [''0123456789'' ! (n mod 10)])"

declare show_nat.simps [simp del]

definition format_2f :: "real \<Rightarrow> string" where
  "format_2f x =
     (let n = nat (round_half_even (\<bar>x\<bar> * 100))
      in (if x < 0 then ''-'' else []) @ show_nat (n div 100) @ ''.''
         @ [''0123456789'' ! ((n div 10) mod 10), ''0123456789'' ! (n mod 10)])"

text \<open>
  \<open>np.isclose(a, b, atol=atol)\<close> with numpy's default \<open>rtol = 1e-05\<close>: numpy tests
  \<open>|a - b| <= atol + rtol * |b|\<close>. Here the comparison is exact; in binary64 the
  two sides carry a rounding error of about \<open>1e-16\<close>, which decides totals that lie
  that close to the boundary.
\<close>

definition isclose :: "real \<Rightarrow> real \<Rightarrow> real \<Rightarrow> bool" where
  "isclose a b atol = (\<bar>a - b\<bar> \<le> atol + 0.00001 * \<bar>b\<bar>)"

section \<open>The constituent registry: the Add Fiber and Add Matrix buttons\<close>

text \<open>
  The handler of the button \<open>Add Fiber\<close>, given the text of the name field and the
  four number fields collected into a constituent.
\<close>

definition add_fiber :: "session_state \<Rightarrow> string \<Rightarrow> constituent \<Rightarrow> run_result" where
  "add_fiber st fiber_name props =
     (if fiber_name \<noteq> [] then
        \<lparr>state = st\<lparr>materials_db :=
                    (materials_db st)\<lparr>fibers := dict_set (fibers (materials_db st)) fiber_name props\<rparr>\<rparr>,
         shown = [Success (''Added '' @ fiber_name @ '' fiber to database'')],
         exception = None\<rparr>
      else
        \<lparr>state = st, shown = [Error ''Please enter a fiber name''], exception = None\<rparr>)"

definition add_matrix :: "session_state \<Rightarrow> string \<Rightarrow> constituent \<Rightarrow> run_result" where
  "add_matrix st matrix_name props =
     (if matrix_name \<noteq> [] then
        \<lparr>state = st\<lparr>materials_db :=
                    (materials_db st)\<lparr>matrices := dict_set (matrices (materials_db st)) matrix_name props\<rparr>\<rparr>,
         shown = [Success (''Added '' @ matrix_name @ '' matrix to database'')],
         exception = None\<rparr>
      else
        \<lparr>state = st, shown = [Error ''Please enter a matrix name''], exception = None\<rparr>)"

section \<open>The Composite Definition tab\<close>

subsection \<open>Collecting the volume fractions\<close>

text \<open>
  The two loops over \<open>materials_db['fibers'].items()\<close> and
  \<open>materials_db['matrices'].items()\<close>: each registered constituent gets a number
  input with the key \<open>vf_<name>\<close>, whose value is stored in the selection dict under
  the name and added to the running total. The widget values are the input
  \<open>number_input\<close>, from widget key to value.
\<close>

definition collect_selections ::
  "(string \<times> constituent) list \<Rightarrow> (string \<Rightarrow> real) \<Rightarrow> (string \<times> real) list \<times> real" where
  "collect_selections db number_input =
     foldl (\<lambda>(selections, total_vf) (name, props).
              let vf = number_input (''vf_'' @ name)
              in (dict_set selections name vf, total_vf + vf))
           ([], 0) db"


subsection \<open>The volume fraction balance\<close>

definition vf_error :: "real \<Rightarrow> real \<Rightarrow> string option" where
  "vf_error total_fiber_vf total_matrix_vf =
     (if \<not> isclose (total_fiber_vf + total_matrix_vf) 1 0.01 then
        Some (''Total volume fractions must sum to 1.0 (current: ''
              @ format_2f (total_fiber_vf + total_matrix_vf) @ '')'')
      else None)"

subsection \<open>The generalized rule of mixtures\<close>

text \<open>
  One loop of contributions: the accumulators are \<open>E1\<close>, \<open>E2_denominator\<close>,
  \<open>G12_denominator\<close>, \<open>nu12\<close> and \<open>density\<close>, in this order (the local
  variables that share a name with a key of the stored dict carry a prime). The lookup of the
  name raises \<open>KeyError\<close> when it is absent, the two divisions raise
  \<open>ZeroDivisionError\<close> on a zero modulus.
\<close>

type_synonym accumulators = "real \<times> real \<times> real \<times> real \<times> real"

fun contributions ::
  "(string \<times> constituent) list \<Rightarrow> (string \<times> real) list \<Rightarrow> accumulators \<Rightarrow> py_error + accumulators" where
  "contributions db [] acc = Inr acc"
| "contributions db ((name, vf) # selections) (E1', E2_denominator, G12_denominator, nu12', density') =
     (case dict_get db name of
        Inl e \<Rightarrow> Inl e
      | Inr c \<Rightarrow>
          (case py_div vf (E c) of
             Inl e \<Rightarrow> Inl e
           | Inr vf_E \<Rightarrow>
               (case py_div vf (G c) of
                  Inl e \<Rightarrow> Inl e
                | Inr vf_G \<Rightarrow>
                    contributions db selections
                      (E1' + E c * vf, E2_denominator + vf_E, G12_denominator + vf_G,
                       nu12' + nu c * vf, density' + constituent.density c * vf))))"

text \<open>
  The body of the button handler up to the store: fiber contributions, then matrix
  contributions, then the three quotients.
\<close>

definition compute_composite ::
  "materials_db \<Rightarrow> (string \<times> real) list \<Rightarrow> (string \<times> real) list \<Rightarrow> py_error + composite" where
  "compute_composite db fiber_selections matrix_selections =
     (case contributions (fibers db) fiber_selections (0, 0, 0, 0, 0) of
        Inl e \<Rightarrow> Inl e
      | Inr acc \<Rightarrow>
          (case contributions (matrices db) matrix_selections acc of
             Inl e \<Rightarrow> Inl e
           | Inr (E1', E2_denominator, G12_denominator, nu12', density') \<Rightarrow>
               (case py_div 1 E2_denominator of
                  Inl e \<Rightarrow> Inl e
                | Inr E2' \<Rightarrow>
                    (case py_div 1 G12_denominator of
                       Inl e \<Rightarrow> Inl e
                     | Inr G12' \<Rightarrow>
                         (case py_div (nu12' * E2') E1' of
                            Inl e \<Rightarrow> Inl e
                          | Inr nu21' \<Rightarrow>
                              Inr \<lparr>E1 = E1', E2 = E2', G12 = G12', nu12 = nu12', nu21 = nu21',
                                   density = density',
                                   fiber_constituents = fiber_selections,
                                   matrix_constituents = matrix_selections\<rparr>)))))"

subsection \<open>The button Calculate Composite Properties\<close>

text \<open>
  The handler runs the computation when the button was pressed, no balance error is
  set and the composite name is not empty; it stores the result under the name. An
  exception raised by the computation leaves the session state as it was, since the
  store comes after the three quotients. The table and the charts the handler draws
  after the store are not modelled; the handler shows no message of its own.
\<close>

definition calculate_composite_properties ::
  "session_state \<Rightarrow> string \<Rightarrow> (string \<times> real) list \<Rightarrow> (string \<times> real) list \<Rightarrow> string option \<Rightarrow> bool
     \<Rightarrow> run_result" where
  "calculate_composite_properties st composite_name fiber_selections matrix_selections vf_err button =
     (if button \<and> vf_err = None \<and> composite_name \<noteq> [] then
        (case compute_composite (materials_db st) fiber_selections matrix_selections of
           Inl e \<Rightarrow> \<lparr>state = st, shown = [], exception = Some e\<rparr>
         | Inr c \<Rightarrow>
             \<lparr>state = st\<lparr>composite_definitions :=
                         dict_set (composite_definitions st) composite_name c\<rparr>,
              shown = [], exception = None\<rparr>)
      else \<lparr>state = st, shown = [], exception = None\<rparr>)"

text \<open>
  The whole tab. It stops with a warning unless a fiber and a matrix are registered.
  Streamlit raises \<open>DuplicateWidgetID\<close> when two widgets of one run have the same
  key: the keys \<open>vf_<name>\<close> collide when a matrix has the name of a fiber. The
  balance error is shown whether or not the button was pressed.
\<close>

definition composite_definition_tab ::
  "session_state \<Rightarrow> string \<Rightarrow> (string \<Rightarrow> real) \<Rightarrow> bool \<Rightarrow> run_result" where
  "composite_definition_tab st composite_name number_input button =
     (let db = materials_db st in
      if fibers db = [] \<or> matrices db = [] then
        \<lparr>state = st,
         shown = [Warning ''Please define at least one fiber and one matrix first''],
         exception = None\<rparr>
      else if \<exists>name \<in> set (keys (matrices db)). name \<in> set (keys (fibers db)) then
        \<lparr>state = st, shown = [], exception = Some DuplicateWidgetID\<rparr>
      else
        (let (fiber_selections, total_fiber_vf) = collect_selections (fibers db) number_input;
             (matrix_selections, total_matrix_vf) = collect_selections (matrices db) number_input;
             vf_err = vf_error total_fiber_vf total_matrix_vf;
             r = calculate_composite_properties st composite_name fiber_selections
                   matrix_selections vf_err button
         in r\<lparr>shown := (case vf_err of None \<Rightarrow> [] | Some text \<Rightarrow> [Error text]) @ shown r\<rparr>))"

section \<open>The rule of mixtures as the specification words it\<close>







subsection \<open>The carbon and epoxy scenario\<close>

definition carbon :: constituent where
  "carbon = \<lparr>E = 230, nu = 0.2, G = 90, density = 1.8\<rparr>"

definition epoxy :: constituent where
  "epoxy = \<lparr>E = 3.5, nu = 0.35, G = 1.3, density = 1.2\<rparr>"

definition carbon_epoxy_db :: materials_db where
  "carbon_epoxy_db = \<lparr>fibers = [(''Carbon'', carbon)], matrices = [(''Epoxy'', epoxy)]\<rparr>"


definition empty_state :: session_state where
  "empty_state = \<lparr>materials_db = \<lparr>fibers = [], matrices = []\<rparr>, composite_definitions = []\<rparr>"


definition carbon_epoxy_result :: "py_error + composite" where
  "carbon_epoxy_result =
     compute_composite carbon_epoxy_db [(''Carbon'', 0.6)] [(''Epoxy'', 0.4)]"

text \<open>
  The figures the specification expects of the scenario, each to two decimal places.
\<close>

definition scenario_expected :: "composite \<Rightarrow> bool" where
  "scenario_expected c =
     (\<bar>E1 c - 138.4\<bar> \<le> 0.005 \<and> \<bar>E2 c - 8.97\<bar> \<le> 0.005 \<and> \<bar>G12 c - 3.19\<bar> \<le> 0.005
      \<and> \<bar>nu12 c - 0.26\<bar> \<le> 0.005 \<and> \<bar>composite.density c - 1.56\<bar> \<le> 0.005)"

subsection \<open>The composite of the formulas and the validator\<close>



subsection \<open>What the forms let through\<close>








section \<open>Dictionaries and the collected selections\<close>

lemma keys_dict_set:
  "keys (dict_set d k v) = (if k \<in> set (keys d) then keys d else keys d @ [k])"
  by (induction d) (force simp: keys_def)+

lemma distinct_dict_set: "distinct (keys d) \<Longrightarrow> distinct (keys (dict_set d k v))"
  by (simp add: keys_dict_set)

lemma map_of_dict_set: "map_of (dict_set d k v) = (map_of d)(k \<mapsto> v)"
  by (induction d) (auto simp: fun_eq_iff)

lemma dict_get_dict_set:
  "dict_get (dict_set d k v) k' = (if k' = k then Inr v else dict_get d k')"
  by (simp add: dict_get_def map_of_dict_set)






section \<open>The rule of mixtures\<close>








section \<open>The carbon and epoxy scenario\<close>

lemma carbon_epoxy_value:
  "carbon_epoxy_result =
     Inr \<lparr>E1 = 139.4, E2 = 8050 / 941, G12 = 1950 / 613, nu12 = 0.26,
          nu21 = 10465 / 655877, density = 1.56,
          fiber_constituents = [(''Carbon'', 0.6)],
          matrix_constituents = [(''Epoxy'', 0.4)]\<rparr>"
  by (simp add: carbon_epoxy_result_def compute_composite_def dict_get_def py_div_def
      carbon_epoxy_db_def carbon_def epoxy_def)

text \<open>
  C2, as stated, fails: with carbon (E=230, nu=0.2, G=90, density 1.8) at 0.6 and epoxy
  (E=3.5, nu=0.35, G=1.3, density 1.2) at 0.4 the computation succeeds, but \<open>E1\<close> is
  139.4 and not 138.4, \<open>E2\<close> is 8050/941 (about 8.55) and not 8.97, and \<open>G12\<close> is
  1950/613 (about 3.18) and not 3.19.
\<close>

theorem scenario_counterexample:
  "\<not> isl carbon_epoxy_result
   \<and> \<not> \<bar>E1 (projr carbon_epoxy_result) - 138.4\<bar> \<le> 0.05
   \<and> \<not> \<bar>E2 (projr carbon_epoxy_result) - 8.97\<bar> \<le> 0.05
   \<and> \<not> \<bar>G12 (projr carbon_epoxy_result) - 3.19\<bar> \<le> 0.005
   \<and> \<not> scenario_expected (projr carbon_epoxy_result)"
  by (simp add: carbon_epoxy_value scenario_expected_def)

text \<open>
  C2, amended: on the scenario the computation returns \<open>E1 = 139.4\<close>,
  \<open>E2 = 8050/941\<close>, \<open>G12 = 1950/613\<close>, \<open>nu12 = 0.26\<close>, \<open>nu21 = 10465/655877\<close>
  and \<open>density = 1.56\<close>, which are the values of the six formulas there; printed with
  two decimals they read 139.40, 8.55, 3.18, 0.26 and 1.56.
\<close>

theorem scenario_values:
  "carbon_epoxy_result =
     Inr \<lparr>E1 = 230 * 0.6 + 3.5 * 0.4,
          E2 = 1 / (0.6 / 230 + 0.4 / 3.5),
          G12 = 1 / (0.6 / 90 + 0.4 / 1.3),
          nu12 = 0.2 * 0.6 + 0.35 * 0.4,
          nu21 = (0.2 * 0.6 + 0.35 * 0.4) * (1 / (0.6 / 230 + 0.4 / 3.5)) / (230 * 0.6 + 3.5 * 0.4),
          density = 1.8 * 0.6 + 1.2 * 0.4,
          fiber_constituents = [(''Carbon'', 0.6)],
          matrix_constituents = [(''Epoxy'', 0.4)]\<rparr>
   \<and> E1 (projr carbon_epoxy_result) = 139.4
   \<and> E2 (projr carbon_epoxy_result) = 8050 / 941
   \<and> G12 (projr carbon_epoxy_result) = 1950 / 613
   \<and> nu12 (projr carbon_epoxy_result) = 0.26
   \<and> nu21 (projr carbon_epoxy_result) = 10465 / 655877
   \<and> composite.density (projr carbon_epoxy_result) = 1.56
   \<and> map format_2f [E1 (projr carbon_epoxy_result), E2 (projr carbon_epoxy_result),
        G12 (projr carbon_epoxy_result), nu12 (projr carbon_epoxy_result),
        composite.density (projr carbon_epoxy_result)]
      = [''139.40'', ''8.55'', ''3.18'', ''0.26'', ''1.56'']"
proof -
  have fmt: "format_2f (697 / 5) = ''139.40''" "format_2f (8050 / 941) = ''8.55''"
    "format_2f (1950 / 613) = ''3.18''" "format_2f (13 / 50) = ''0.26''"
    "format_2f (39 / 25) = ''1.56''"
    by (simp_all add: format_2f_def round_half_even_def Let_def show_nat.simps)
  show ?thesis
    by (simp add: carbon_epoxy_value fmt)
qed

section \<open>The volume fraction balance\<close>




section \<open>Division faults\<close>









section \<open>The registry\<close>

text \<open>
  C9: the Add Fiber handler reports an error and changes nothing when the name is empty;
  otherwise it stores the record under the name in the fiber mapping, replacing the
  record of a name already present in its place and appending a new name, so that the
  last write wins; every other entry, the matrix mapping and the composite definitions
  are as before. The Add Matrix handler does the same over the matrix mapping.
\<close>

theorem add_constituent_contract:
  "(fiber_name = [] \<longrightarrow>
      add_fiber st fiber_name props
        = \<lparr>state = st, shown = [Error ''Please enter a fiber name''], exception = None\<rparr>)
   \<and> (fiber_name \<noteq> [] \<longrightarrow>
      dict_get (fibers (materials_db (state (add_fiber st fiber_name props)))) fiber_name = Inr props
      \<and> (\<forall>k. k \<noteq> fiber_name \<longrightarrow>
            dict_get (fibers (materials_db (state (add_fiber st fiber_name props)))) k
              = dict_get (fibers (materials_db st)) k)
      \<and> keys (fibers (materials_db (state (add_fiber st fiber_name props))))
          = (if fiber_name \<in> set (keys (fibers (materials_db st)))
             then keys (fibers (materials_db st))
             else keys (fibers (materials_db st)) @ [fiber_name])
      \<and> dict_get (fibers (materials_db (state
            (add_fiber (state (add_fiber st fiber_name props)) fiber_name props')))) fiber_name
          = Inr props'
      \<and> matrices (materials_db (state (add_fiber st fiber_name props))) = matrices (materials_db st)
      \<and> composite_definitions (state (add_fiber st fiber_name props)) = composite_definitions st
      \<and> exception (add_fiber st fiber_name props) = None)
   \<and> (matrix_name = [] \<longrightarrow>
      add_matrix st matrix_name props
        = \<lparr>state = st, shown = [Error ''Please enter a matrix name''], exception = None\<rparr>)
   \<and> (matrix_name \<noteq> [] \<longrightarrow>
      dict_get (matrices (materials_db (state (add_matrix st matrix_name props)))) matrix_name = Inr props
      \<and> (\<forall>k. k \<noteq> matrix_name \<longrightarrow>
            dict_get (matrices (materials_db (state (add_matrix st matrix_name props)))) k
              = dict_get (matrices (materials_db st)) k)
      \<and> keys (matrices (materials_db (state (add_matrix st matrix_name props))))
          = (if matrix_name \<in> set (keys (matrices (materials_db st)))
             then keys (matrices (materials_db st))
             else keys (matrices (materials_db st)) @ [matrix_name])
      \<and> dict_get (matrices (materials_db (state
            (add_matrix (state (add_matrix st matrix_name props)) matrix_name props')))) matrix_name
          = Inr props'
      \<and> fibers (materials_db (state (add_matrix st matrix_name props))) = fibers (materials_db st)
      \<and> composite_definitions (state (add_matrix st matrix_name props)) = composite_definitions st
      \<and> exception (add_matrix st matrix_name props) = None)"
  by (simp add: add_fiber_def add_matrix_def dict_get_dict_set keys_dict_set)

theorem add_constituent_contract_witness:
  "add_fiber empty_state [] carbon
     = \<lparr>state = empty_state, shown = [Error ''Please enter a fiber name''], exception = None\<rparr>
   \<and> fibers (materials_db (state (add_fiber empty_state ''Carbon'' carbon))) = [(''Carbon'', carbon)]
   \<and> dict_get (fibers (materials_db (state
         (add_fiber (state (add_fiber empty_state ''Carbon'' carbon)) ''Carbon'' epoxy)))) ''Carbon''
       = Inr epoxy
   \<and> add_matrix empty_state [] epoxy
     = \<lparr>state = empty_state, shown = [Error ''Please enter a matrix name''], exception = None\<rparr>
   \<and> dict_get (matrices (materials_db (state (add_matrix empty_state ''Epoxy'' epoxy)))) ''Epoxy''
       = Inr epoxy"
  using add_constituent_contract [where fiber_name = "[]" and st = empty_state and props = carbon
      and props' = epoxy and matrix_name = "[]"]
    add_constituent_contract [where fiber_name = "''Carbon''" and st = empty_state and props = epoxy
      and props' = epoxy and matrix_name = "''Epoxy''"]
  by (simp add: add_fiber_def add_matrix_def empty_state_def dict_get_def)

section \<open>The empty composite name\<close>

text \<open>
  C10: with an empty composite name the handler of the button does nothing: no message,
  no exception, the state unchanged, and the whole tab behaves as if the button had not
  been pressed. An empty fiber or matrix name, in contrast, is reported as an error.
\<close>

theorem empty_composite_name_skipped:
  "calculate_composite_properties st [] fiber_selections matrix_selections vf_err button
     = \<lparr>state = st, shown = [], exception = None\<rparr>
   \<and> composite_definition_tab st [] number_input button
     = composite_definition_tab st [] number_input False
   \<and> state (composite_definition_tab st [] number_input button) = st
   \<and> shown (add_fiber st [] props) = [Error ''Please enter a fiber name'']
   \<and> shown (add_matrix st [] props) = [Error ''Please enter a matrix name'']"
  by (simp add: calculate_composite_properties_def composite_definition_tab_def add_fiber_def
      add_matrix_def Let_def split: prod.splits)

section \<open>Names and fractions of the assignments\<close>










section \<open>The computation after the balance check\<close>









section \<open>The store of composite definitions\<close>






section \<open>No division fault\<close>





section \<open>The names of the assignments\<close>



section \<open>The fractions of the assignments\<close>







section \<open>Reciprocity over exact arithmetic\<close>

text \<open>
  Over the reals every composite the computation returns satisfies
  \<open>nu21 * E1 = nu12 * E2\<close>: \<open>nu21\<close> is the quotient \<open>nu12 * E2 / E1\<close> and a zero
  \<open>E1\<close> raises. The statement is one of exact arithmetic only: in binary64 the
  product and the quotient are rounded, and \<open>E1\<close> can overflow to infinity for
  moduli near the largest float, which the forms admit.
\<close>

lemma reciprocity_exact:
  assumes "compute_composite db fiber_selections matrix_selections = Inr c"
  shows "nu21 c * E1 c = nu12 c * E2 c"
  using assms
  by (auto simp: compute_composite_def py_div_def split: sum.splits prod.splits if_splits)

end
